theory Spec2Isabelle
  imports Main "HOL-Library.Sublist"
begin

section \<open>Failures and the values exchanged with the collaborators\<close>

text \<open>
  Every exception the lifecycle controller can see is a value of \<open>error\<close>; an operation
  returns \<open>error + 'a\<close> with \<open>Inl\<close> for a raise.  \<open>HTTPError\<close> carries the status
  code of the rejected request; \<open>ConnectionError\<close> and \<open>Timeout\<close> are the transport
  failures of the HTTP client that are not HTTP-level (no response with a status).
\<close>

datatype error =
    HTTPError nat
  | ConnectionError
  | Timeout
  | AssertionError
  | RetryExhausted
  | ResourceNotFound
  | JSONDecodeError
  | AttributeError
  | KeyError
  | TypeError
  | ValueError
  | OtherError string

text \<open>
  An exception type, as handed to \<open>retry\<close> in its list of tolerated types, is the test
  ``is an instance of'' on failures.
\<close>

type_synonym exception_type = "error \<Rightarrow> bool"

fun HTTPError_type :: exception_type where
  "HTTPError_type (HTTPError code) = True"
| "HTTPError_type e = False"

fun AssertionError_type :: exception_type where
  "AssertionError_type AssertionError = True"
| "AssertionError_type e = False"

text \<open>
  A decoded JSON document as Python holds it.  An object is an association list read
  with \<open>map_of\<close> (the first binding of a key is the dictionary's binding); numbers are
  the integers (a fractional number is outside this model).
\<close>

datatype json =
    JNull
  | JBool bool
  | JInt int
  | JStr string
  | JArr "json list"
  | JObj "(string \<times> json) list"

text \<open>Python's truth value of a decoded document, as \<open>assert x\<close> tests it.\<close>

fun truthy :: "json \<Rightarrow> bool" where
  "truthy JNull = False"
| "truthy (JBool b) = b"
| "truthy (JInt i) = (i \<noteq> 0)"
| "truthy (JStr s) = (s \<noteq> [])"
| "truthy (JArr xs) = (xs \<noteq> [])"
| "truthy (JObj kvs) = (kvs \<noteq> [])"

text \<open>\<open>d.get(key)\<close>: the value or \<open>None\<close> on a dictionary, no such attribute elsewhere.\<close>

fun dict_get :: "json \<Rightarrow> string \<Rightarrow> error + json" where
  "dict_get (JObj kvs) key = Inr (case map_of kvs key of None \<Rightarrow> JNull | Some v \<Rightarrow> v)"
| "dict_get j key = Inl AttributeError"

text \<open>\<open>d[key]\<close> with a string key: a missing key raises, and so does any other value.\<close>

fun subscript :: "json \<Rightarrow> string \<Rightarrow> error + json" where
  "subscript (JObj kvs) key = (case map_of kvs key of None \<Rightarrow> Inl KeyError | Some v \<Rightarrow> Inr v)"
| "subscript j key = Inl TypeError"

text \<open>
  \<open>s.split(sep)\<close> for a one-character separator: the pieces between the separators,
  empty pieces included.
\<close>

fun split_on :: "char \<Rightarrow> string \<Rightarrow> string list" where
  "split_on sep [] = [[]]"
| "split_on sep (c # cs) =
     (if c = sep then [] # split_on sep cs
      else (case split_on sep cs of [] \<Rightarrow> [[c]] | p # ps \<Rightarrow> (c # p) # ps))"

fun str_split :: "json \<Rightarrow> char \<Rightarrow> error + string list" where
  "str_split (JStr s) sep = Inr (split_on sep s)"
| "str_split j sep = Inl AttributeError"

text \<open>
  \<open>int(s)\<close> on a string of code points below 256: white space around the literal is
  dropped, one sign may lead, and the digits may be grouped by single underscores.
  (The limit recent interpreters put on the number of digits is not modelled.)
\<close>

definition whitespace :: "char \<Rightarrow> bool" where
  "whitespace c = (of_char c \<in> {9, 10, 11, 12, 13, 32, 133, 160 :: nat})"

definition strip :: "string \<Rightarrow> string" where
  "strip s = rev (dropWhile whitespace (rev (dropWhile whitespace s)))"

definition is_digit :: "char \<Rightarrow> bool" where
  "is_digit c = (48 \<le> (of_char c :: nat) \<and> (of_char c :: nat) \<le> 57)"

definition digits_value :: "string \<Rightarrow> nat" where
  "digits_value ds = foldl (\<lambda>a c. 10 * a + (of_char c - 48)) 0 ds"

definition digit_groups :: "string \<Rightarrow> nat option" where
  "digit_groups body =
     (let groups = split_on CHR ''_'' body
      in if list_all (\<lambda>g. g \<noteq> [] \<and> list_all is_digit g) groups
         then Some (digits_value (concat groups)) else None)"

definition int_of_str :: "string \<Rightarrow> error + int" where
  "int_of_str s =
     (let t = strip s;
          (negative, body) =
            (case t of
               [] \<Rightarrow> (False, t)
             | c # r \<Rightarrow> if c = CHR ''-'' then (True, r)
                        else if c = CHR ''+'' then (False, r) else (False, t))
      in case digit_groups body of
           None \<Rightarrow> Inl ValueError
         | Some n \<Rightarrow> Inr (if negative then - int n else int n))"

section \<open>The retry engine\<close>

text \<open>
  Modelled from the spec: \<open>retry\<close> (imported from \<open>util/common.py\<close>) is not among the
  sources.  The specification, section 4.1: the operation is invoked repeatedly; a
  success is returned at once; a failure of a tolerated kind is retried until the budget
  of attempts is used up, and then \<open>RetryExhausted\<close> is signalled; a failure of any
  other kind propagates at once.  The operation runs on a state \<open>'s\<close> that it may
  change; the pause between two attempts changes nothing and is left out.
\<close>

definition tolerates :: "exception_type list \<Rightarrow> error \<Rightarrow> bool" where
  "tolerates exception_types e = list_ex (\<lambda>t. t e) exception_types"

fun retry ::
  "('s \<Rightarrow> (error + 'a) \<times> 's) \<Rightarrow> nat \<Rightarrow> exception_type list \<Rightarrow> 's \<Rightarrow> (error + 'a) \<times> 's"
where
  "retry f 0 exception_types s = (Inl RetryExhausted, s)"
| "retry f (Suc n) exception_types s =
     (case f s of
        (Inr result, s') \<Rightarrow> (Inr result, s')
      | (Inl e, s') \<Rightarrow>
          if tolerates exception_types e then retry f n exception_types s'
          else (Inl e, s'))"

text \<open>
  To count attempts, an operation is run beside a counter that every invocation
  increments; \<open>state_after f k s\<close> is the state \<open>k\<close> invocations of \<open>f\<close> lead to from \<open>s\<close>.
\<close>

definition counting :: "('s \<Rightarrow> 'r \<times> 's) \<Rightarrow> nat \<times> 's \<Rightarrow> 'r \<times> nat \<times> 's" where
  "counting f = (\<lambda>(n, s). case f s of (r, s') \<Rightarrow> (r, Suc n, s'))"

fun state_after :: "('s \<Rightarrow> 'r \<times> 's) \<Rightarrow> nat \<Rightarrow> 's \<Rightarrow> 's" where
  "state_after f 0 s = s"
| "state_after f (Suc k) s = state_after f k (snd (f s))"

section \<open>Configuration, collaborators and the record of calls\<close>

text \<open>
  The fields of \<open>EnvironmentConfig\<close> the controller reads: \<open>config.auth.organization_id\<close>,
  the two orchestration contexts, and the base URL that
  \<open>config.controllers.region_api_server.configured_base_url()\<close> answers.
\<close>

record config =
  organization_id :: string
  environment_context :: string
  system_context :: string
  configured_base_url :: string

text \<open>
  An HTTP response: \<open>body\<close> is the decoded JSON document, \<open>None\<close> when the body is not
  JSON, in which case \<open>response.json()\<close> raises.
\<close>

record response =
  status_code :: nat
  body :: "json option"

definition response_json :: "response \<Rightarrow> error + json" where
  "response_json r = (case body r of None \<Rightarrow> Inl JSONDecodeError | Some j \<Rightarrow> Inr j)"

text \<open>
  One call to a collaborator, with the arguments the controller passes: the HTTP client
  (base URL, path, and the PATCH body or the DELETE timeout), the resource-store queries
  (context, namespace, resource type, resource name, and the attempts of the retrying
  query), and the connectivity probe (host, port, timeout in seconds).
\<close>

datatype call =
    HttpGet string string
  | HttpPatch string string json
  | HttpDelete string string nat
  | KubectlGetRetry string "string option" string string nat
  | KubectlGet string "string option" string string
  | KubectlGetOrNone string "string option" string string
  | WaitForConnectable string int nat

text \<open>
  Modelled from the spec: the HTTP client (\<open>get\<close>, \<open>patch\<close>, \<open>delete\<close> of \<open>util/http.py\<close>),
  the resource-store queries (\<open>kubectl_get\<close>, \<open>kubectl_get_or_none\<close>, \<open>kubectl_get_retry\<close>
  of \<open>util/kubectl.py\<close>) and \<open>wait_for_connectable\<close> (\<open>util/controller.py\<close>) are not among
  the sources; sections 2 and 6 of the specification give their signatures and treat them
  as external collaborators.  Each is therefore an arbitrary answer to the calls made so
  far (the last element of the list is the call being answered).  The HTTP client is
  handed the configuration object itself, so its answer includes the configuration as the
  call leaves it; the other collaborators receive strings and numbers only.
\<close>

record world =
  get_answer :: "call list \<Rightarrow> config \<Rightarrow> (error + response) \<times> config"
  patch_answer :: "call list \<Rightarrow> config \<Rightarrow> (error + response) \<times> config"
  delete_answer :: "call list \<Rightarrow> config \<Rightarrow> (error + response) \<times> config"
  kubectl_get_retry_answer :: "call list \<Rightarrow> error + json"
  kubectl_get_answer :: "call list \<Rightarrow> error + json"
  kubectl_get_or_none_answer :: "call list \<Rightarrow> error + json option"
  wait_for_connectable_answer :: "call list \<Rightarrow> error + unit"

text \<open>
  The state an operation runs on: the configuration object it was passed by reference,
  and the calls made to the collaborators so far, oldest first.
\<close>

record state =
  config :: config
  trace :: "call list"

definition get :: "world \<Rightarrow> string \<Rightarrow> string \<Rightarrow> state \<Rightarrow> (error + response) \<times> state" where
  "get w base_url path s =
     (let h = trace s @ [HttpGet base_url path];
          (r, c) = get_answer w h (config s)
      in (r, \<lparr>config = c, trace = h\<rparr>))"

definition patch ::
  "world \<Rightarrow> string \<Rightarrow> string \<Rightarrow> json \<Rightarrow> state \<Rightarrow> (error + response) \<times> state" where
  "patch w base_url path json s =
     (let h = trace s @ [HttpPatch base_url path json];
          (r, c) = patch_answer w h (config s)
      in (r, \<lparr>config = c, trace = h\<rparr>))"

definition delete ::
  "world \<Rightarrow> string \<Rightarrow> string \<Rightarrow> nat \<Rightarrow> state \<Rightarrow> (error + response) \<times> state" where
  "delete w base_url path timeout s =
     (let h = trace s @ [HttpDelete base_url path timeout];
          (r, c) = delete_answer w h (config s)
      in (r, \<lparr>config = c, trace = h\<rparr>))"

definition kubectl_get_retry ::
  "world \<Rightarrow> string \<Rightarrow> string option \<Rightarrow> string \<Rightarrow> string \<Rightarrow> nat \<Rightarrow> state
    \<Rightarrow> (error + json) \<times> state" where
  "kubectl_get_retry w ctx namespace resource_type resource_name max_attempts s =
     (let h = trace s @ [KubectlGetRetry ctx namespace resource_type resource_name max_attempts]
      in (kubectl_get_retry_answer w h, s\<lparr>trace := h\<rparr>))"

definition kubectl_get ::
  "world \<Rightarrow> string \<Rightarrow> string option \<Rightarrow> string \<Rightarrow> string \<Rightarrow> state \<Rightarrow> (error + json) \<times> state" where
  "kubectl_get w ctx namespace resource_type resource_name s =
     (let h = trace s @ [KubectlGet ctx namespace resource_type resource_name]
      in (kubectl_get_answer w h, s\<lparr>trace := h\<rparr>))"

definition kubectl_get_or_none ::
  "world \<Rightarrow> string \<Rightarrow> string option \<Rightarrow> string \<Rightarrow> string \<Rightarrow> state
    \<Rightarrow> (error + json option) \<times> state" where
  "kubectl_get_or_none w ctx namespace resource_type resource_name s =
     (let h = trace s @ [KubectlGetOrNone ctx namespace resource_type resource_name]
      in (kubectl_get_or_none_answer w h, s\<lparr>trace := h\<rparr>))"

definition wait_for_connectable ::
  "world \<Rightarrow> string \<times> int \<Rightarrow> nat \<Rightarrow> state \<Rightarrow> (error + unit) \<times> state" where
  "wait_for_connectable w address timeout s =
     (let h = trace s @ [WaitForConnectable (fst address) (snd address) timeout]
      in (wait_for_connectable_answer w h, s\<lparr>trace := h\<rparr>))"

section \<open>The environment lifecycle controller\<close>

text \<open>
  \<open>create_environment_assignment(config, image=None)\<close>, environment.py lines 26 to 54;
  the parameter \<open>image\<close> is \<open>image_ref\<close> here.
\<close>

definition create_environment_assignment ::
  "world \<Rightarrow> string option \<Rightarrow> state \<Rightarrow> (error + json) \<times> state" where
  "create_environment_assignment w image_ref s =
     (let environment_assignment = organization_id (config s) @ ''-0'';
          environment = ''environment-'' @ environment_assignment;
          json = (case image_ref of
                    None \<Rightarrow> []
                  | Some i \<Rightarrow> [(''environmentdImageRef'', JStr i)])
      in case patch w (configured_base_url (config s)) ''/api/region'' (JObj json) s of
           (Inl e, s1) \<Rightarrow> (Inl e, s1)
         | (Inr r, s1) \<Rightarrow>
            (case kubectl_get_retry w (environment_context (config s1)) None
                    ''environment'' environment 10 s1 of
               (Inl e, s2) \<Rightarrow> (Inl e, s2)
             | (Inr r', s2) \<Rightarrow>
                 kubectl_get w (system_context (config s2)) None
                   ''environmentassignment'' environment_assignment s2))"

text \<open>
  The readiness probe \<open>get_environment\<close>, the closure of \<open>wait_for_environmentd\<close>
  (lines 58 to 68): each \<open>assert\<close> that fails raises \<open>AssertionError\<close>.
\<close>

definition get_environment :: "world \<Rightarrow> state \<Rightarrow> (error + response) \<times> state" where
  "get_environment w s =
     (case get w (configured_base_url (config s)) ''/api/region'' s of
        (Inl e, s1) \<Rightarrow> (Inl e, s1)
      | (Inr response, s1) \<Rightarrow>
         (case response_json response of
            Inl e \<Rightarrow> (Inl e, s1)
          | Inr j \<Rightarrow>
             (case dict_get j ''regionInfo'' of
                Inl e \<Rightarrow> (Inl e, s1)
              | Inr region_info \<Rightarrow>
                 if \<not> truthy region_info then (Inl AssertionError, s1)
                 else (case dict_get region_info ''resolvable'' of
                         Inl e \<Rightarrow> (Inl e, s1)
                       | Inr resolvable \<Rightarrow>
                          if \<not> truthy resolvable then (Inl AssertionError, s1)
                          else (case dict_get region_info ''sqlAddress'' of
                                  Inl e \<Rightarrow> (Inl e, s1)
                                | Inr sql_address \<Rightarrow>
                                   if \<not> truthy sql_address then (Inl AssertionError, s1)
                                   else (Inr response, s1))))))"

text \<open>\<open>wait_for_environmentd(config)\<close>, lines 57 to 74.\<close>

definition wait_for_environmentd :: "world \<Rightarrow> state \<Rightarrow> (error + json) \<times> state" where
  "wait_for_environmentd w s =
     (case retry (get_environment w) 600 [AssertionError_type] s of
        (Inl e, s1) \<Rightarrow> (Inl e, s1)
      | (Inr response, s1) \<Rightarrow>
         (case response_json response of
            Inl e \<Rightarrow> (Inl e, s1)
          | Inr environment_json \<Rightarrow>
             (case subscript environment_json ''regionInfo'' of
                Inl e \<Rightarrow> (Inl e, s1)
              | Inr region_info \<Rightarrow>
                 (case subscript region_info ''sqlAddress'' of
                    Inl e \<Rightarrow> (Inl e, s1)
                  | Inr pgwire_url \<Rightarrow>
                     (case str_split pgwire_url CHR '':'' of
                        Inl e \<Rightarrow> (Inl e, s1)
                      | Inr [pgwire_host, pgwire_port] \<Rightarrow>
                         (case int_of_str pgwire_port of
                            Inl e \<Rightarrow> (Inl e, s1)
                          | Inr port \<Rightarrow>
                             (case wait_for_connectable w (pgwire_host, port) 300 s1 of
                                (Inl e, s2) \<Rightarrow> (Inl e, s2)
                              | (Inr u, s2) \<Rightarrow> (Inr environment_json, s2)))
                      | Inr parts \<Rightarrow> (Inl ValueError, s1))))))"

text \<open>
  \<open>delete_environment_assignment(config)\<close>, lines 77 to 120, with its closure
  \<open>delete_environment\<close> (lines 81 to 90), which returns nothing.
\<close>

definition delete_environment :: "world \<Rightarrow> state \<Rightarrow> (error + unit) \<times> state" where
  "delete_environment w s =
     (case delete w (configured_base_url (config s)) ''/api/region'' 305 s of
        (Inl e, s1) \<Rightarrow> (Inl e, s1)
      | (Inr r, s1) \<Rightarrow> (Inr (), s1))"

definition delete_environment_assignment :: "world \<Rightarrow> state \<Rightarrow> (error + unit) \<times> state" where
  "delete_environment_assignment w s =
     (let environment_assignment = organization_id (config s) @ ''-0'';
          environment = ''environment-'' @ environment_assignment
      in case retry (delete_environment w) 10 [HTTPError_type] s of
           (Inl e, s1) \<Rightarrow> (Inl e, s1)
         | (Inr u, s1) \<Rightarrow>
            (case kubectl_get_or_none w (environment_context (config s1)) None
                    ''namespace'' environment s1 of
               (Inl e, s2) \<Rightarrow> (Inl e, s2)
             | (Inr found, s2) \<Rightarrow>
                if found \<noteq> None then (Inl AssertionError, s2)
                else (case kubectl_get_or_none w (environment_context (config s2)) None
                             ''environment'' environment s2 of
                        (Inl e, s3) \<Rightarrow> (Inl e, s3)
                      | (Inr found, s3) \<Rightarrow>
                         if found \<noteq> None then (Inl AssertionError, s3)
                         else (case kubectl_get_or_none w (system_context (config s3)) None
                                      ''environmentassignment'' environment_assignment s3 of
                                 (Inl e, s4) \<Rightarrow> (Inl e, s4)
                               | (Inr found, s4) \<Rightarrow>
                                  if found \<noteq> None then (Inl AssertionError, s4)
                                  else (Inr (), s4)))))"

section \<open>Vocabulary of the properties\<close>






text \<open>
  The resource type and resource name a call asks the resource store for, and the
  queries made between two states, oldest first.
\<close>

fun store_query :: "call \<Rightarrow> (string \<times> string) option" where
  "store_query (KubectlGetRetry ctx namespace resource_type resource_name max_attempts) =
     Some (resource_type, resource_name)"
| "store_query (KubectlGet ctx namespace resource_type resource_name) =
     Some (resource_type, resource_name)"
| "store_query (KubectlGetOrNone ctx namespace resource_type resource_name) =
     Some (resource_type, resource_name)"
| "store_query c = None"

definition store_queries :: "state \<Rightarrow> state \<Rightarrow> (string \<times> string) list" where
  "store_queries s s' = List.map_filter store_query (drop (length (trace s)) (trace s'))"



text \<open>A GET sent to \<open>/api/region\<close>.\<close>

fun is_region_get :: "call \<Rightarrow> bool" where
  "is_region_get (HttpGet base_url path) = (path = ''/api/region'')"
| "is_region_get c = False"

section \<open>Sample runs\<close>

text \<open>
  Two operations for the retry engine on a counter: \<open>flaky\<close> fails twice with a failed
  assertion and from then on with HTTP 500; \<open>failing\<close> always fails an assertion.
\<close>

definition flaky :: "nat \<Rightarrow> (error + unit) \<times> nat" where
  "flaky s = (if s < 2 then Inl AssertionError else Inl (HTTPError 500), Suc s)"

definition failing :: "nat \<Rightarrow> (error + unit) \<times> nat" where
  "failing s = (Inl AssertionError, Suc s)"

text \<open>The organization of scenario A, before any call has been made.\<close>

definition org1_config :: config where
  "org1_config =
     \<lparr>organization_id = ''org1'', environment_context = ''environment-cluster'',
      system_context = ''system-cluster'', configured_base_url = ''https://region.test''\<rparr>"

definition start :: state where
  "start = \<lparr>config = org1_config, trace = []\<rparr>"

text \<open>
  A world in which every collaborator succeeds at once: the region API reports a ready
  environment at \<open>10.0.0.5:6875\<close>, the resource store holds what is fetched and has
  nothing left for a fetch-or-none, and the endpoint accepts connections.
\<close>

definition ready_payload :: json where
  "ready_payload =
     JObj [(''regionInfo'',
            JObj [(''resolvable'', JBool True), (''sqlAddress'', JStr ''10.0.0.5:6875'')])]"


definition ok_response :: "json \<Rightarrow> response" where
  "ok_response j = \<lparr>status_code = 200, body = Some j\<rparr>"

definition assignment_resource :: json where
  "assignment_resource =
     JObj [(''kind'', JStr ''EnvironmentAssignment''), (''metadata'', JObj [(''name'', JStr ''org1-0'')])]"

definition calm_world :: world where
  "calm_world =
     \<lparr>get_answer = (\<lambda>h c. (Inr (ok_response ready_payload), c)),
      patch_answer = (\<lambda>h c. (Inr (ok_response (JObj [])), c)),
      delete_answer = (\<lambda>h c. (Inr (ok_response (JObj [])), c)),
      kubectl_get_retry_answer = (\<lambda>h. Inr (JObj [(''kind'', JStr ''Environment'')])),
      kubectl_get_answer = (\<lambda>h. Inr assignment_resource),
      kubectl_get_or_none_answer = (\<lambda>h. Inr None),
      wait_for_connectable_answer = (\<lambda>h. Inr ())\<rparr>"

text \<open>Scenario C: the region API rejects the PATCH with HTTP 500.\<close>

definition rejecting_world :: world where
  "rejecting_world = calm_world\<lparr>patch_answer := (\<lambda>h c. (Inl (HTTPError 500), c))\<rparr>"

text \<open>A DELETE sent to \<open>/api/region\<close> with the client-side timeout of 305 seconds.\<close>

fun is_region_delete :: "call \<Rightarrow> bool" where
  "is_region_delete (HttpDelete base_url path timeout) = (path = ''/api/region'' \<and> timeout = 305)"
| "is_region_delete c = False"

text \<open>
  Scenario D: the DELETE succeeds at once, but the resource store still holds the
  environmentassignment resource.  \<open>deleted\<close> is the state the successful DELETE leaves.
\<close>

definition leftover_world :: world where
  "leftover_world =
     calm_world\<lparr>kubectl_get_or_none_answer :=
       (\<lambda>h. case last h of
              KubectlGetOrNone ctx namespace resource_type resource_name \<Rightarrow>
                if resource_type = ''environmentassignment'' then Inr (Some assignment_resource)
                else Inr None
            | other \<Rightarrow> Inr None)\<rparr>"

definition deleted :: state where
  "deleted = \<lparr>config = org1_config,
              trace = [HttpDelete ''https://region.test'' ''/api/region'' 305]\<rparr>"






definition probed :: "nat \<Rightarrow> state" where
  "probed k = \<lparr>config = org1_config,
               trace = replicate k (HttpGet ''https://region.test'' ''/api/region'')\<rparr>"



text \<open>
  Region APIs that report a ready environment at once, with the given \<open>sqlAddress\<close>.
\<close>

definition address_payload :: "string \<Rightarrow> json" where
  "address_payload address =
     JObj [(''regionInfo'',
            JObj [(''resolvable'', JBool True), (''sqlAddress'', JStr address)])]"

definition address_world :: "string \<Rightarrow> world" where
  "address_world address =
     calm_world\<lparr>get_answer :=
       (\<lambda>h c. (Inr (ok_response (address_payload address)), c))\<rparr>"


section \<open>Properties of the retry engine\<close>

lemma retry_skips_tolerated:
  assumes "\<forall>i<k. \<exists>e. fst (f (state_after f i s)) = Inl e \<and> tolerates ts e" and "k \<le> n"
  shows "retry f n ts s = retry f (n - k) ts (state_after f k s)"
  using assms
proof (induction k arbitrary: n s)
  case 0
  then show ?case by simp
next
  case (Suc k)
  then obtain m where n: "n = Suc m" and km: "k \<le> m"
    by (cases n) auto
  from Suc.prems(1) obtain e where e: "fst (f s) = Inl e" "tolerates ts e"
    by fastforce
  have later: "\<forall>i<k. \<exists>e. fst (f (state_after f i (snd (f s)))) = Inl e \<and> tolerates ts e"
  proof (intro allI impI)
    fix i assume "i < k"
    then have "Suc i < Suc k" by simp
    with Suc.prems(1) show "\<exists>e. fst (f (state_after f i (snd (f s)))) = Inl e \<and> tolerates ts e"
      by (metis state_after.simps(2))
  qed
  have "retry f n ts s = retry f m ts (snd (f s))"
    using e n by (cases "f s") simp
  also have "\<dots> = retry f (m - k) ts (state_after f k (snd (f s)))"
    using Suc.IH [OF later km] .
  finally show ?case using n by simp
qed

lemma state_after_counting:
  "state_after (counting f) k (c, s) = (c + k, state_after f k s)"
  by (induction k arbitrary: c s) (simp_all add: counting_def split: prod.splits)

lemma fst_counting: "fst (counting f (c, s)) = fst (f s)"
  by (simp add: counting_def split: prod.splits)

text \<open>
  C5.  Whatever the operation, the budget and the tolerated exception types: when the
  first \<open>k\<close> attempts fail with tolerated failures, \<open>k\<close> is below the budget, and the next
  attempt fails with a failure \<open>e\<close> that is not tolerated, \<open>retry\<close> fails with that same
  \<open>e\<close>, in the state that attempt left, after \<open>k + 1\<close> invocations of the operation:
  none is made after the failure.
\<close>

theorem retry_propagates_non_tolerated:
  assumes "k < N"
    and "\<forall>i<k. \<exists>e. fst (f (state_after f i s)) = Inl e \<and> tolerates ts e"
    and "f (state_after f k s) = (Inl e, s')"
    and "\<not> tolerates ts e"
  shows "retry (counting f) N ts (0, s) = (Inl e, Suc k, s')"
proof -
  have "\<forall>i<k. \<exists>e. fst (counting f (state_after (counting f) i (0, s))) = Inl e \<and> tolerates ts e"
    using assms(2) by (simp add: state_after_counting fst_counting)
  from retry_skips_tolerated [OF this, of N] assms(1)
  have "retry (counting f) N ts (0, s) = retry (counting f) (N - k) ts (k, state_after f k s)"
    by (simp add: state_after_counting)
  moreover obtain m where "N - k = Suc m"
    using assms(1) by (cases "N - k") auto
  ultimately show ?thesis
    using assms(3,4) by (simp add: counting_def)
qed

theorem retry_propagates_non_tolerated_witness:
  "retry (counting flaky) 5 [AssertionError_type] (0, 0) = (Inl (HTTPError 500), 3, 3)"
  using retry_propagates_non_tolerated
          [of 2 5 flaky 0 "[AssertionError_type]" "HTTPError 500" 3]
  by (simp add: flaky_def tolerates_def eval_nat_numeral less_Suc_eq)

text \<open>
  C6.  For every budget \<open>N\<close>: when the operation fails with a tolerated failure in every
  state, \<open>retry\<close> signals \<open>RetryExhausted\<close> and the operation has been invoked exactly
  \<open>N\<close> times.
\<close>

theorem retry_exhausted_after_budget:
  assumes "\<forall>s. \<exists>e. fst (f s) = Inl e \<and> tolerates ts e"
  shows "retry (counting f) N ts (0, s) = (Inl RetryExhausted, N, state_after f N s)"
proof -
  have "\<forall>i<N. \<exists>e. fst (counting f (state_after (counting f) i (0, s))) = Inl e \<and> tolerates ts e"
    using assms by (simp add: state_after_counting fst_counting)
  from retry_skips_tolerated [OF this, of N]
  show ?thesis by (simp add: state_after_counting)
qed

theorem retry_exhausted_after_budget_witness:
  "retry (counting failing) 7 [AssertionError_type] (0, 0) = (Inl RetryExhausted, 7, 7)"
  using retry_exhausted_after_budget [of failing "[AssertionError_type]" 7 0]
  by (simp add: failing_def tolerates_def eval_nat_numeral)

lemma retry_final_state: "\<exists>k\<le>n. snd (retry f n ts s) = state_after f k s"
proof (induction n arbitrary: s)
  case 0
  show ?case by simp
next
  case (Suc n)
  obtain r s' where fs: "f s = (r, s')" by (cases "f s")
  show ?case
  proof (cases "\<exists>e. r = Inl e \<and> tolerates ts e")
    case True
    then have "retry f (Suc n) ts s = retry f n ts s'"
      using fs by auto
    moreover from Suc.IH [of s'] obtain k where "k \<le> n" "snd (retry f n ts s') = state_after f k s'"
      by blast
    ultimately have "Suc k \<le> Suc n \<and> snd (retry f (Suc n) ts s) = state_after f (Suc k) s"
      using fs by simp
    then show ?thesis by blast
  next
    case False
    then have "snd (retry f (Suc n) ts s) = s'"
      using fs by (cases r) auto
    then have "Suc 0 \<le> Suc n \<and> snd (retry f (Suc n) ts s) = state_after f (Suc 0) s"
      using fs by simp
    then show ?thesis by blast
  qed
qed



section \<open>The collaborators' wrappers\<close>

lemma get_unfold:
  "get w u p s =
     (fst (get_answer w (trace s @ [HttpGet u p]) (config s)),
      \<lparr>config = snd (get_answer w (trace s @ [HttpGet u p]) (config s)),
       trace = trace s @ [HttpGet u p]\<rparr>)"
  by (simp add: get_def Let_def split: prod.splits)

lemma patch_unfold:
  "patch w u p j s =
     (fst (patch_answer w (trace s @ [HttpPatch u p j]) (config s)),
      \<lparr>config = snd (patch_answer w (trace s @ [HttpPatch u p j]) (config s)),
       trace = trace s @ [HttpPatch u p j]\<rparr>)"
  by (simp add: patch_def Let_def split: prod.splits)

lemma delete_unfold:
  "delete w u p t s =
     (fst (delete_answer w (trace s @ [HttpDelete u p t]) (config s)),
      \<lparr>config = snd (delete_answer w (trace s @ [HttpDelete u p t]) (config s)),
       trace = trace s @ [HttpDelete u p t]\<rparr>)"
  by (simp add: delete_def Let_def split: prod.splits)

lemma snd_get_environment:
  "snd (get_environment w s) = snd (get w (configured_base_url (config s)) ''/api/region'' s)"
  by (simp add: get_environment_def split: prod.splits sum.splits)

lemma snd_delete_environment:
  "snd (delete_environment w s) = snd (delete w (configured_base_url (config s)) ''/api/region'' 305 s)"
  by (simp add: delete_environment_def split: prod.splits sum.splits)

section \<open>Creating an environment assignment\<close>

text \<open>
  C2.  If the PATCH to \<open>/api/region\<close> is rejected with an HTTP error (a non-2xx status
  \<open>code\<close>), \<open>create_environment_assignment\<close> fails with that \<open>HTTPError\<close>, and the only
  call it has made is that one PATCH: no resource-store poll, no fetch of the
  environmentassignment, and no second PATCH.
\<close>

theorem create_patch_rejected:
  assumes "fst (patch w (configured_base_url (config s)) ''/api/region''
                 (JObj (case image_ref of
                          None \<Rightarrow> []
                        | Some i \<Rightarrow> [(''environmentdImageRef'', JStr i)])) s)
           = Inl (HTTPError code)"
  shows "fst (create_environment_assignment w image_ref s) = Inl (HTTPError code) \<and>
         trace (snd (create_environment_assignment w image_ref s)) =
           trace s @ [HttpPatch (configured_base_url (config s)) ''/api/region''
                        (JObj (case image_ref of
                                 None \<Rightarrow> []
                               | Some i \<Rightarrow> [(''environmentdImageRef'', JStr i)]))]"
proof -
  let ?body = "JObj (case image_ref of
                       None \<Rightarrow> []
                     | Some i \<Rightarrow> [(''environmentdImageRef'', JStr i)])"
  obtain r s1 where p: "patch w (configured_base_url (config s)) ''/api/region'' ?body s = (r, s1)"
    by (cases "patch w (configured_base_url (config s)) ''/api/region'' ?body s")
  with assms have r: "r = Inl (HTTPError code)" by simp
  have "create_environment_assignment w image_ref s = (Inl (HTTPError code), s1)"
    using p r by (simp add: create_environment_assignment_def)
  moreover have "trace s1 =
      trace s @ [HttpPatch (configured_base_url (config s)) ''/api/region'' ?body]"
    using p by (auto simp: patch_unfold)
  ultimately show ?thesis by simp
qed

theorem create_patch_rejected_witness:
  "fst (create_environment_assignment rejecting_world None start) = Inl (HTTPError 500) \<and>
   trace (snd (create_environment_assignment rejecting_world None start)) =
     [HttpPatch ''https://region.test'' ''/api/region'' (JObj [])]"
  using create_patch_rejected [of rejecting_world start None 500]
  by (simp add: rejecting_world_def calm_world_def start_def org1_config_def patch_unfold)

text \<open>
  C8.  For every configuration and optional image: the PATCH body is the empty object
  when no image is given and \<open>{"environmentdImageRef": image}\<close> when one is.  When the
  PATCH is accepted, the environment resource is polled for under the name
  \<open>environment-{organization_id}-0\<close> with 10 attempts (the retrying query of the resource
  store, which does its own retrying); when the poll succeeds, the environmentassignment
  resource \<open>{organization_id}-0\<close> is fetched by one plain query, and what that query
  returns is the result.  These three calls are all the calls made.
\<close>

theorem create_success:
  assumes "patch w (configured_base_url (config s)) ''/api/region''
             (case image_ref of
                None \<Rightarrow> JObj []
              | Some i \<Rightarrow> JObj [(''environmentdImageRef'', JStr i)]) s
           = (Inr r1, s1)"
    and "kubectl_get_retry w (environment_context (config s1)) None ''environment''
             (''environment-'' @ organization_id (config s) @ ''-0'') 10 s1 = (Inr r2, s2)"
    and "kubectl_get w (system_context (config s2)) None ''environmentassignment''
             (organization_id (config s) @ ''-0'') s2 = (Inr resource, s3)"
  shows "create_environment_assignment w image_ref s = (Inr resource, s3) \<and>
         trace s3 = trace s @
           [HttpPatch (configured_base_url (config s)) ''/api/region''
              (case image_ref of
                 None \<Rightarrow> JObj []
               | Some i \<Rightarrow> JObj [(''environmentdImageRef'', JStr i)]),
            KubectlGetRetry (environment_context (config s1)) None ''environment''
              (''environment-'' @ organization_id (config s) @ ''-0'') 10,
            KubectlGet (system_context (config s2)) None ''environmentassignment''
              (organization_id (config s) @ ''-0'')]"
proof -
  have t1: "trace s1 = trace s @ [HttpPatch (configured_base_url (config s)) ''/api/region''
              (case image_ref of
                 None \<Rightarrow> JObj []
               | Some i \<Rightarrow> JObj [(''environmentdImageRef'', JStr i)])]"
    using assms(1) by (auto simp: patch_unfold)
  have t2: "trace s2 = trace s1 @
      [KubectlGetRetry (environment_context (config s1)) None ''environment''
         (''environment-'' @ organization_id (config s) @ ''-0'') 10]"
    using assms(2) by (auto simp: kubectl_get_retry_def Let_def)
  have t3: "trace s3 = trace s2 @
      [KubectlGet (system_context (config s2)) None ''environmentassignment''
         (organization_id (config s) @ ''-0'')]"
    using assms(3) by (auto simp: kubectl_get_def Let_def)
  have "create_environment_assignment w image_ref s = (Inr resource, s3)"
    using assms by (cases image_ref) (simp_all add: create_environment_assignment_def)
  then show ?thesis using t1 t2 t3 by simp
qed

theorem create_success_witness:
  "create_environment_assignment calm_world (Some ''environmentd:v0.27'') start =
     (Inr assignment_resource,
      \<lparr>config = org1_config,
       trace = [HttpPatch ''https://region.test'' ''/api/region''
                  (JObj [(''environmentdImageRef'', JStr ''environmentd:v0.27'')]),
                KubectlGetRetry ''environment-cluster'' None ''environment''
                  ''environment-org1-0'' 10,
                KubectlGet ''system-cluster'' None ''environmentassignment'' ''org1-0'']\<rparr>) \<and>
   trace (snd (create_environment_assignment calm_world None start)) =
     [HttpPatch ''https://region.test'' ''/api/region'' (JObj []),
      KubectlGetRetry ''environment-cluster'' None ''environment'' ''environment-org1-0'' 10,
      KubectlGet ''system-cluster'' None ''environmentassignment'' ''org1-0'']"
  using create_success [of calm_world start "Some ''environmentd:v0.27''"]
        create_success [of calm_world start None]
  by (simp add: calm_world_def start_def org1_config_def patch_unfold kubectl_get_retry_def
      kubectl_get_def)

lemma tolerates_single [simp]: "tolerates [t] e = t e"
  by (simp add: tolerates_def)

lemma kubectl_get_or_none_unfold:
  "kubectl_get_or_none w ctx ns t n s =
     (kubectl_get_or_none_answer w (trace s @ [KubectlGetOrNone ctx ns t n]),
      s\<lparr>trace := trace s @ [KubectlGetOrNone ctx ns t n]\<rparr>)"
  by (simp add: kubectl_get_or_none_def Let_def)

lemma delete_environment_trace:
  "trace (snd (delete_environment w s)) =
     trace s @ [HttpDelete (configured_base_url (config s)) ''/api/region'' 305]"
  by (simp add: snd_delete_environment delete_unfold)

lemma state_after_trace:
  assumes "\<And>t. \<exists>c. trace (snd (f t)) = trace t @ [c] \<and> Q c"
  shows "\<exists>cs. trace (state_after f k s) = trace s @ cs \<and> length cs = k \<and> list_all Q cs"
proof (induction k arbitrary: s)
  case 0
  show ?case by simp
next
  case (Suc k)
  from assms [of s] obtain c where c: "trace (snd (f s)) = trace s @ [c]" "Q c"
    by blast
  from Suc.IH [of "snd (f s)"] obtain cs where
    cs: "trace (state_after f k (snd (f s))) = trace (snd (f s)) @ cs" "length cs = k" "list_all Q cs"
    by blast
  have "trace (state_after f (Suc k) s) = trace s @ (c # cs) \<and> length (c # cs) = Suc k
        \<and> list_all Q (c # cs)"
    using c cs by simp
  then show ?case by blast
qed


section \<open>Deleting an environment assignment\<close>

text \<open>
  C3.  Once the retried DELETE has succeeded, the namespace, the environment resource and
  the environmentassignment resource are each queried exactly once with the fetch-or-none
  query, in this order.  When all three are absent the operation returns nothing; when a
  queried resource is present the operation fails with \<open>AssertionError\<close> at that check
  (the later checks are not made); and it succeeds only when all three came back absent.
\<close>

theorem delete_absence_checks:
  assumes "retry (delete_environment w) 10 [HTTPError_type] s = (Inr u, s1)"
    and "kubectl_get_or_none w (environment_context (config s1)) None ''namespace''
           (''environment-'' @ organization_id (config s) @ ''-0'') s1 = (r1, s2)"
    and "kubectl_get_or_none w (environment_context (config s1)) None ''environment''
           (''environment-'' @ organization_id (config s) @ ''-0'') s2 = (r2, s3)"
    and "kubectl_get_or_none w (system_context (config s1)) None ''environmentassignment''
           (organization_id (config s) @ ''-0'') s3 = (r3, s4)"
  shows "(r1 = Inr None \<and> r2 = Inr None \<and> r3 = Inr None \<longrightarrow>
            delete_environment_assignment w s = (Inr (), s4))
       \<and> ((\<exists>x. r1 = Inr (Some x)) \<longrightarrow>
            delete_environment_assignment w s = (Inl AssertionError, s2))
       \<and> (r1 = Inr None \<and> (\<exists>x. r2 = Inr (Some x)) \<longrightarrow>
            delete_environment_assignment w s = (Inl AssertionError, s3))
       \<and> (r1 = Inr None \<and> r2 = Inr None \<and> (\<exists>x. r3 = Inr (Some x)) \<longrightarrow>
            delete_environment_assignment w s = (Inl AssertionError, s4))
       \<and> (fst (delete_environment_assignment w s) = Inr () \<longrightarrow>
            r1 = Inr None \<and> r2 = Inr None \<and> r3 = Inr None)
       \<and> trace s4 = trace s1 @
           [KubectlGetOrNone (environment_context (config s1)) None ''namespace''
              (''environment-'' @ organization_id (config s) @ ''-0''),
            KubectlGetOrNone (environment_context (config s1)) None ''environment''
              (''environment-'' @ organization_id (config s) @ ''-0''),
            KubectlGetOrNone (system_context (config s1)) None ''environmentassignment''
              (organization_id (config s) @ ''-0'')]"
proof -
  have c2: "config s2 = config s1" and c3: "config s3 = config s1"
    using assms(2,3) by (auto simp: kubectl_get_or_none_unfold)
  have tr: "trace s4 = trace s1 @
           [KubectlGetOrNone (environment_context (config s1)) None ''namespace''
              (''environment-'' @ organization_id (config s) @ ''-0''),
            KubectlGetOrNone (environment_context (config s1)) None ''environment''
              (''environment-'' @ organization_id (config s) @ ''-0''),
            KubectlGetOrNone (system_context (config s1)) None ''environmentassignment''
              (organization_id (config s) @ ''-0'')]"
    using assms(2,3,4) by (auto simp: kubectl_get_or_none_unfold)
  have res: "delete_environment_assignment w s =
      (case r1 of
         Inl e \<Rightarrow> (Inl e, s2)
       | Inr found \<Rightarrow>
          if found \<noteq> None then (Inl AssertionError, s2)
          else (case r2 of
                  Inl e \<Rightarrow> (Inl e, s3)
                | Inr found \<Rightarrow>
                   if found \<noteq> None then (Inl AssertionError, s3)
                   else (case r3 of
                           Inl e \<Rightarrow> (Inl e, s4)
                         | Inr found \<Rightarrow>
                            if found \<noteq> None then (Inl AssertionError, s4) else (Inr (), s4))))"
    using assms c2 c3 by (simp add: delete_environment_assignment_def split: sum.splits)
  show ?thesis
    unfolding res using tr by (auto split: sum.splits)
qed

theorem delete_absence_checks_witness:
  "delete_environment_assignment leftover_world start =
     (Inl AssertionError,
      deleted\<lparr>trace := trace deleted @
        [KubectlGetOrNone ''environment-cluster'' None ''namespace'' ''environment-org1-0'',
         KubectlGetOrNone ''environment-cluster'' None ''environment'' ''environment-org1-0'',
         KubectlGetOrNone ''system-cluster'' None ''environmentassignment'' ''org1-0'']\<rparr>) \<and>
   delete_environment_assignment calm_world start =
     (Inr (),
      deleted\<lparr>trace := trace deleted @
        [KubectlGetOrNone ''environment-cluster'' None ''namespace'' ''environment-org1-0'',
         KubectlGetOrNone ''environment-cluster'' None ''environment'' ''environment-org1-0'',
         KubectlGetOrNone ''system-cluster'' None ''environmentassignment'' ''org1-0'']\<rparr>)"
proof -
  let ?n = "KubectlGetOrNone ''environment-cluster'' None ''namespace'' ''environment-org1-0''"
  let ?e = "KubectlGetOrNone ''environment-cluster'' None ''environment'' ''environment-org1-0''"
  let ?a = "KubectlGetOrNone ''system-cluster'' None ''environmentassignment'' ''org1-0''"
  have d: "retry (delete_environment leftover_world) 10 [HTTPError_type] start = (Inr (), deleted)"
    by code_simp
  have k1: "kubectl_get_or_none leftover_world (environment_context (config deleted)) None
              ''namespace'' (''environment-'' @ organization_id (config start) @ ''-0'') deleted
            = (Inr None, deleted\<lparr>trace := trace deleted @ [?n]\<rparr>)"
    by code_simp
  have k2: "kubectl_get_or_none leftover_world (environment_context (config deleted)) None
              ''environment'' (''environment-'' @ organization_id (config start) @ ''-0'')
              (deleted\<lparr>trace := trace deleted @ [?n]\<rparr>)
            = (Inr None, deleted\<lparr>trace := trace deleted @ [?n, ?e]\<rparr>)"
    by code_simp
  have k3: "kubectl_get_or_none leftover_world (system_context (config deleted)) None
              ''environmentassignment'' (organization_id (config start) @ ''-0'')
              (deleted\<lparr>trace := trace deleted @ [?n, ?e]\<rparr>)
            = (Inr (Some assignment_resource), deleted\<lparr>trace := trace deleted @ [?n, ?e, ?a]\<rparr>)"
    by code_simp
  have d': "retry (delete_environment calm_world) 10 [HTTPError_type] start = (Inr (), deleted)"
    by code_simp
  have k1': "kubectl_get_or_none calm_world (environment_context (config deleted)) None
              ''namespace'' (''environment-'' @ organization_id (config start) @ ''-0'') deleted
            = (Inr None, deleted\<lparr>trace := trace deleted @ [?n]\<rparr>)"
    by code_simp
  have k2': "kubectl_get_or_none calm_world (environment_context (config deleted)) None
              ''environment'' (''environment-'' @ organization_id (config start) @ ''-0'')
              (deleted\<lparr>trace := trace deleted @ [?n]\<rparr>)
            = (Inr None, deleted\<lparr>trace := trace deleted @ [?n, ?e]\<rparr>)"
    by code_simp
  have k3': "kubectl_get_or_none calm_world (system_context (config deleted)) None
              ''environmentassignment'' (organization_id (config start) @ ''-0'')
              (deleted\<lparr>trace := trace deleted @ [?n, ?e]\<rparr>)
            = (Inr None, deleted\<lparr>trace := trace deleted @ [?n, ?e, ?a]\<rparr>)"
    by code_simp
  from delete_absence_checks [OF d k1 k2 k3] delete_absence_checks [OF d' k1' k2' k3']
  show ?thesis by simp
qed



lemma store_queries_append:
  "trace s' = trace s @ cs \<Longrightarrow> store_queries s s' = List.map_filter store_query cs"
  by (simp add: store_queries_def)

lemma region_deletes_no_queries:
  "list_all is_region_delete cs \<Longrightarrow> List.map_filter store_query cs = []"
proof (induction cs)
  case Nil
  show ?case by (simp add: List.map_filter_simps)
next
  case (Cons c cs)
  then show ?case by (cases c) (simp_all add: List.map_filter_simps)
qed

lemma map_filter_append:
  "List.map_filter f (xs @ ys) = List.map_filter f xs @ List.map_filter f ys"
  by (simp add: List.map_filter_def)

lemma retried_delete_trace:
  "\<exists>cs. trace (snd (retry (delete_environment w) n ts s)) = trace s @ cs
        \<and> list_all is_region_delete cs"
proof -
  obtain k where "snd (retry (delete_environment w) n ts s) = state_after (delete_environment w) k s"
    using retry_final_state [of n "delete_environment w" ts s] by blast
  moreover have "\<exists>cs. trace (state_after (delete_environment w) k s) = trace s @ cs
      \<and> length cs = k \<and> list_all is_region_delete cs"
    by (rule state_after_trace) (simp add: delete_environment_trace)
  ultimately show ?thesis by auto
qed

lemma create_queries:
  "prefix (store_queries s (snd (create_environment_assignment w image_ref s)))
     [(''environment'', ''environment-'' @ organization_id (config s) @ ''-0''),
      (''environmentassignment'', organization_id (config s) @ ''-0'')]
   \<and> ((\<exists>r. fst (create_environment_assignment w image_ref s) = Inr r) \<longrightarrow>
        store_queries s (snd (create_environment_assignment w image_ref s)) =
          [(''environment'', ''environment-'' @ organization_id (config s) @ ''-0''),
           (''environmentassignment'', organization_id (config s) @ ''-0'')])"
  by (simp add: create_environment_assignment_def patch_unfold kubectl_get_retry_def
      kubectl_get_def Let_def store_queries_def List.map_filter_simps split: sum.splits)

lemma delete_queries:
  "prefix (store_queries s (snd (delete_environment_assignment w s)))
     [(''namespace'', ''environment-'' @ organization_id (config s) @ ''-0''),
      (''environment'', ''environment-'' @ organization_id (config s) @ ''-0''),
      (''environmentassignment'', organization_id (config s) @ ''-0'')]
   \<and> (fst (delete_environment_assignment w s) = Inr () \<longrightarrow>
        store_queries s (snd (delete_environment_assignment w s)) =
          [(''namespace'', ''environment-'' @ organization_id (config s) @ ''-0''),
           (''environment'', ''environment-'' @ organization_id (config s) @ ''-0''),
           (''environmentassignment'', organization_id (config s) @ ''-0'')])"
proof -
  obtain r0 s1 where r: "retry (delete_environment w) 10 [HTTPError_type] s = (r0, s1)"
    by (cases "retry (delete_environment w) 10 [HTTPError_type] s")
  obtain cs where cs: "trace s1 = trace s @ cs" "List.map_filter store_query cs = []"
    using retried_delete_trace [of w 10 "[HTTPError_type]" s] r region_deletes_no_queries
    by auto
  show ?thesis
    using r cs
    by (simp add: delete_environment_assignment_def kubectl_get_or_none_unfold Let_def
        store_queries_def map_filter_append List.map_filter_simps split: sum.splits)
qed

section \<open>Naming\<close>

text \<open>
  C4.  For every organization id, in every run: the resource-store queries of
  \<open>create_environment_assignment\<close> are, in order, the environment
  \<open>environment-{organization_id}-0\<close> and the environmentassignment \<open>{organization_id}-0\<close>
  (a run that fails makes an initial part of them, a run that succeeds makes both);
  those of \<open>delete_environment_assignment\<close> are the namespace and the environment
  \<open>environment-{organization_id}-0\<close> and the environmentassignment \<open>{organization_id}-0\<close>.
  Both operations thus use the same two names, computed from the organization id alone.
\<close>

theorem naming_convention:
  "prefix (store_queries s (snd (create_environment_assignment w image_ref s)))
     [(''environment'', ''environment-'' @ organization_id (config s) @ ''-0''),
      (''environmentassignment'', organization_id (config s) @ ''-0'')]
   \<and> ((\<exists>r. fst (create_environment_assignment w image_ref s) = Inr r) \<longrightarrow>
        store_queries s (snd (create_environment_assignment w image_ref s)) =
          [(''environment'', ''environment-'' @ organization_id (config s) @ ''-0''),
           (''environmentassignment'', organization_id (config s) @ ''-0'')])
   \<and> prefix (store_queries s (snd (delete_environment_assignment w s)))
     [(''namespace'', ''environment-'' @ organization_id (config s) @ ''-0''),
      (''environment'', ''environment-'' @ organization_id (config s) @ ''-0''),
      (''environmentassignment'', organization_id (config s) @ ''-0'')]
   \<and> (fst (delete_environment_assignment w s) = Inr () \<longrightarrow>
        store_queries s (snd (delete_environment_assignment w s)) =
          [(''namespace'', ''environment-'' @ organization_id (config s) @ ''-0''),
           (''environment'', ''environment-'' @ organization_id (config s) @ ''-0''),
           (''environmentassignment'', organization_id (config s) @ ''-0'')])"
  using create_queries [of s w image_ref] delete_queries [of s w] by blast

theorem naming_convention_witness:
  "store_queries start (snd (create_environment_assignment calm_world None start)) =
     [(''environment'', ''environment-org1-0''), (''environmentassignment'', ''org1-0'')]
   \<and> store_queries start (snd (delete_environment_assignment calm_world start)) =
     [(''namespace'', ''environment-org1-0''), (''environment'', ''environment-org1-0''),
      (''environmentassignment'', ''org1-0'')]"
proof -
  have c: "fst (create_environment_assignment calm_world None start) = Inr assignment_resource"
    by code_simp
  have d: "fst (delete_environment_assignment calm_world start) = Inr ()"
    by code_simp
  have o: "organization_id (config start) = ''org1''"
    by code_simp
  from naming_convention [of start calm_world None] c d show ?thesis
    by (simp add: o)
qed

section \<open>The configuration object\<close>





















section \<open>Waiting for the environment\<close>




lemma get_environment_trace:
  "\<exists>c. trace (snd (get_environment w s)) = trace s @ [c] \<and> is_region_get c"
  by (simp add: snd_get_environment get_unfold)

lemma split_on_no_sep: "sep \<notin> set xs \<Longrightarrow> split_on sep xs = [xs]"
  by (induction xs) auto

lemma split_on_nonempty: "split_on sep xs \<noteq> []"
  by (induction xs) (simp_all split: list.splits)

lemma split_on_first:
  "sep \<notin> set host \<Longrightarrow> split_on sep (host @ sep # rest) = host # split_on sep rest"
  by (induction host) auto

lemma split_on_host_port:
  "sep \<notin> set host \<Longrightarrow> sep \<notin> set port \<Longrightarrow> split_on sep (host @ sep # port) = [host, port]"
  by (simp add: split_on_first split_on_no_sep)

lemma length_split_on: "length (split_on sep xs) = Suc (count_list xs sep)"
  by (induction xs) (auto split: list.splits simp: split_on_nonempty)





lemma retried_get_trace:
  "\<exists>gets. trace (snd (retry (get_environment w) n ts s)) = trace s @ gets
        \<and> list_all is_region_get gets"
proof -
  obtain k where "snd (retry (get_environment w) n ts s) = state_after (get_environment w) k s"
    using retry_final_state [of n "get_environment w" ts s] by blast
  moreover have "\<exists>gets. trace (state_after (get_environment w) k s) = trace s @ gets
      \<and> length gets = k \<and> list_all is_region_get gets"
    by (rule state_after_trace) (rule get_environment_trace)
  ultimately show ?thesis by auto
qed

lemma int_of_str_error: "int_of_str s = Inl e \<Longrightarrow> e = ValueError"
  by (auto simp: int_of_str_def Let_def split: prod.splits option.splits)

text \<open>
  C10.  Let the readiness poll have succeeded with a document whose \<open>sqlAddress\<close> is a
  string.  If that string does not contain exactly one colon, or the part after its colon
  is not accepted by \<open>int\<close>, the operation fails with \<open>ValueError\<close>, which is none of
  the failure kinds of the specification.  It fails after readiness was confirmed: the
  calls made are the GETs of the poll, and no connectivity probe.
\<close>

theorem malformed_sql_address:
  assumes "retry (get_environment w) 600 [AssertionError_type] s = (Inr response, s1)"
    and "body response = Some (JObj doc)"
    and "map_of doc ''regionInfo'' = Some (JObj info)"
    and "map_of info ''sqlAddress'' = Some (JStr address)"
    and "count_list address CHR '':'' \<noteq> 1
         \<or> (\<exists>host port. address = host @ '':'' @ port \<and> int_of_str port = Inl ValueError)"
  shows "wait_for_environmentd w s = (Inl ValueError, s1)
       \<and> (\<exists>gets. trace s1 = trace s @ gets \<and> list_all is_region_get gets)"
proof
  have unfolded: "wait_for_environmentd w s =
      (case split_on CHR '':'' address of
         [pgwire_host, pgwire_port] \<Rightarrow>
           (case int_of_str pgwire_port of
              Inl e \<Rightarrow> (Inl e, s1)
            | Inr port \<Rightarrow>
               (case wait_for_connectable w (pgwire_host, port) 300 s1 of
                  (Inl e, s2) \<Rightarrow> (Inl e, s2)
                | (Inr u, s2) \<Rightarrow> (Inr (JObj doc), s2)))
       | parts \<Rightarrow> (Inl ValueError, s1))"
    unfolding wait_for_environmentd_def assms(1)
    using assms(2,3,4) by (simp add: response_json_def)
  show "wait_for_environmentd w s = (Inl ValueError, s1)"
  proof (cases "count_list address CHR '':'' = 1")
    case False
    then have "length (split_on CHR '':'' address) \<noteq> 2"
      by (simp add: length_split_on)
    then show ?thesis
      unfolding unfolded by (auto split: list.splits)
  next
    case True
    with assms(5) obtain host port where
      hp: "address = host @ '':'' @ port" "int_of_str port = Inl ValueError"
      by auto
    from True hp(1) have "count_list host CHR '':'' = 0" "count_list port CHR '':'' = 0"
      by simp_all
    then have "CHR '':'' \<notin> set host" "CHR '':'' \<notin> set port"
      by (simp_all add: count_list_0_iff)
    then have "split_on CHR '':'' address = [host, port]"
      using hp(1) split_on_host_port [of "CHR '':''" host port] by simp
    then show ?thesis
      unfolding unfolded using hp(2) by simp
  qed
  show "\<exists>gets. trace s1 = trace s @ gets \<and> list_all is_region_get gets"
    using retried_get_trace [of w 600 "[AssertionError_type]" s] assms(1) by simp
qed

theorem malformed_sql_address_witness:
  "wait_for_environmentd (address_world ''localhost'') start = (Inl ValueError, probed 1)
   \<and> wait_for_environmentd (address_world ''fe80::1'') start = (Inl ValueError, probed 1)
   \<and> wait_for_environmentd (address_world ''db.internal:pgwire'') start
       = (Inl ValueError, probed 1)"
proof -
  have b: "\<And>a. body (ok_response (address_payload a)) =
      Some (JObj [(''regionInfo'',
                   JObj [(''resolvable'', JBool True), (''sqlAddress'', JStr a)])])"
    by (simp add: ok_response_def address_payload_def)
  have m1: "\<And>a. map_of [(''regionInfo'',
                   JObj [(''resolvable'', JBool True), (''sqlAddress'', JStr a)])] ''regionInfo''
      = Some (JObj [(''resolvable'', JBool True), (''sqlAddress'', JStr a)])"
    by simp
  have m2: "\<And>a. map_of [(''resolvable'', JBool True), (''sqlAddress'', JStr a)] ''sqlAddress''
      = Some (JStr a)"
    by simp
  have r1: "retry (get_environment (address_world ''localhost'')) 600 [AssertionError_type] start
      = (Inr (ok_response (address_payload ''localhost'')), probed 1)"
    by code_simp
  have d1: "count_list ''localhost'' CHR '':'' \<noteq> 1
      \<or> (\<exists>host port. ''localhost'' = host @ '':'' @ port \<and> int_of_str port = Inl ValueError)"
    by simp
  have r2: "retry (get_environment (address_world ''fe80::1'')) 600 [AssertionError_type] start
      = (Inr (ok_response (address_payload ''fe80::1'')), probed 1)"
    by code_simp
  have d2: "count_list ''fe80::1'' CHR '':'' \<noteq> 1
      \<or> (\<exists>host port. ''fe80::1'' = host @ '':'' @ port \<and> int_of_str port = Inl ValueError)"
    by simp
  have r3: "retry (get_environment (address_world ''db.internal:pgwire'')) 600
              [AssertionError_type] start
      = (Inr (ok_response (address_payload ''db.internal:pgwire'')), probed 1)"
    by code_simp
  have "''db.internal:pgwire'' = ''db.internal'' @ '':'' @ ''pgwire''"
    by simp
  moreover have "int_of_str ''pgwire'' = Inl ValueError"
    by code_simp
  ultimately have d3: "count_list ''db.internal:pgwire'' CHR '':'' \<noteq> 1
      \<or> (\<exists>host port. ''db.internal:pgwire'' = host @ '':'' @ port
                     \<and> int_of_str port = Inl ValueError)"
    by blast
  from malformed_sql_address [OF r1 b m1 m2 d1] malformed_sql_address [OF r2 b m1 m2 d2]
    malformed_sql_address [OF r3 b m1 m2 d3]
  show ?thesis by simp
qed

end
